theory Spec2Isabelle
  imports Main "HOL-Library.AList" "HOL-Library.Char_ord" "HOL-Library.List_Lexorder"
begin

section \<open>Values, documents and field transforms\<close>

text \<open>
  The functions of \<^verbatim>\<open>src/functions/index.js\<close> read and write Firestore documents.
  A document is a finite map from field names to values. JavaScript numbers are modelled
  as exact integers (quantities and amounts in the smallest unit), strings as \<open>string\<close>.
  An object handed to \<^verbatim>\<open>set(ref, obj, { merge: true })\<close> is a map from keys to field
  transforms: \<^verbatim>\<open>FieldValue.increment(n)\<close>, \<^verbatim>\<open>FieldValue.serverTimestamp()\<close> or a plain value.
  Assigning \<^verbatim>\<open>obj[k] = v\<close> to a JavaScript object replaces whatever \<^verbatim>\<open>obj[k]\<close> held, which
  is the map update \<open>obj(k \<mapsto> v)\<close>.
\<close>

datatype fvalue = Num int | Str string | Time int

datatype transform = Increment int | Put fvalue | ServerTimestamp

type_synonym doc = "string \<rightharpoonup> fvalue"

type_synonym update = "string \<rightharpoonup> transform"

definition field :: "doc option \<Rightarrow> string \<Rightarrow> fvalue option" where
  "field d k = (case d of None \<Rightarrow> None | Some f \<Rightarrow> f k)"

text \<open>
  Firestore's increment adds to a numeric field and stores the operand when the field is
  missing or not a number.
\<close>

definition apply_transform :: "int \<Rightarrow> fvalue option \<Rightarrow> transform \<Rightarrow> fvalue" where
  "apply_transform serverTime old tr =
     (case tr of
        Increment n \<Rightarrow> (case old of Some (Num x) \<Rightarrow> Num (x + n) | _ \<Rightarrow> Num n)
      | Put v \<Rightarrow> v
      | ServerTimestamp \<Rightarrow> Time serverTime)"

text \<open>\<^verbatim>\<open>set(ref, u, { merge: true })\<close>: creates the document when absent; fields not named
  by \<open>u\<close> keep their value.\<close>

definition set_merge :: "int \<Rightarrow> doc option \<Rightarrow> update \<Rightarrow> doc" where
  "set_merge serverTime d u =
     (\<lambda>k. case u k of
             None \<Rightarrow> field d k
           | Some tr \<Rightarrow> Some (apply_transform serverTime (field d k) tr))"

text \<open>The numeric content of a field, \<open>0\<close> when the field is missing or not a number.\<close>

definition num_of :: "fvalue option \<Rightarrow> int" where
  "num_of v = (case v of Some (Num x) \<Rightarrow> x | _ \<Rightarrow> 0)"

section \<open>The query cache (lines 13--42)\<close>

definition CACHE_TTL :: int where
  "CACHE_TTL = 60000"

text \<open>\<^verbatim>\<open>memoryCache\<close>: key \<open>\<mapsto>\<close> \<open>(data, timestamp)\<close>.\<close>

type_synonym 'a memoryCache = "string \<rightharpoonup> ('a \<times> int)"

text \<open>
  \<^verbatim>\<open>getCachedData(key, fetchFn)\<close>. The argument \<open>fetched\<close> is what \<^verbatim>\<open>fetchFn()\<close> returns
  when it is called; \<open>now\<close> is \<^verbatim>\<open>Date.now()\<close>, read once per call in the model.
\<close>

definition getCachedData :: "'a memoryCache \<Rightarrow> int \<Rightarrow> string \<Rightarrow> 'a \<Rightarrow> 'a \<times> 'a memoryCache" where
  "getCachedData memo now key fetched =
     (case memo key of
        Some (cdata, ctime) \<Rightarrow>
          if now - ctime < CACHE_TTL then (cdata, memo)
          else (fetched, memo(key \<mapsto> (fetched, now)))
      | None \<Rightarrow> (fetched, memo(key \<mapsto> (fetched, now))))"

definition startsWith :: "string \<Rightarrow> string \<Rightarrow> bool" where
  "startsWith key pre = (take (length pre) key = pre)"

definition invalidateCache :: "string \<Rightarrow> 'a memoryCache \<Rightarrow> 'a memoryCache" where
  "invalidateCache pre memo = (\<lambda>key. if startsWith key pre then None else memo key)"

section \<open>Dates\<close>

text \<open>
  A JavaScript \<^verbatim>\<open>Date\<close> is a number of milliseconds since the epoch. The functions below
  model the part of the \<^verbatim>\<open>Date\<close> library the code uses, for a host whose local time zone
  is UTC (the default of the Cloud Functions runtime) and for years 100 to 9999, with the
  civil calendar computed from the day number:
  \<open>toISODate\<close> is \<^verbatim>\<open>d.toISOString().split("T")[0]\<close>, \<open>newDate y m d\<close> is
  \<^verbatim>\<open>new Date(y, m, d)\<close> with its zero-based month and its overflow of month and day.
\<close>

definition MS_PER_DAY :: int where
  "MS_PER_DAY = 86400000"

definition civil_from_days :: "int \<Rightarrow> int \<times> int \<times> int" where
  "civil_from_days z =
     (let z1 = z + 719468;
          era = z1 div 146097;
          doe = z1 - era * 146097;
          yoe = (doe - doe div 1460 + doe div 36524 - doe div 146096) div 365;
          doy = doe - (365 * yoe + yoe div 4 - yoe div 100);
          mp = (5 * doy + 2) div 153;
          d = doy - (153 * mp + 2) div 5 + 1;
          m = (if mp < 10 then mp + 3 else mp - 9);
          y = yoe + era * 400
      in (if m \<le> 2 then y + 1 else y, m, d))"

definition days_from_civil :: "int \<Rightarrow> int \<Rightarrow> int \<Rightarrow> int" where
  "days_from_civil y0 m d =
     (let y = (if m \<le> 2 then y0 - 1 else y0);
          era = y div 400;
          yoe = y - era * 400;
          doy = (153 * (if m > 2 then m - 3 else m + 9) + 2) div 5 + d - 1;
          doe = yoe * 365 + yoe div 4 - yoe div 100 + doy
      in era * 146097 + doe - 719468)"

definition digit :: "nat \<Rightarrow> char" where
  "digit n = ''0123456789'' ! (n mod 10)"

fun pad :: "nat \<Rightarrow> nat \<Rightarrow> string" where
  "pad 0 n = []"
| "pad (Suc w) n = pad w (n div 10) @ [digit n]"

definition toISODate :: "int \<Rightarrow> string" where
  "toISODate ms =
     (case civil_from_days (ms div MS_PER_DAY) of
        (y, m, d) \<Rightarrow> pad 4 (nat y) @ ''-'' @ pad 2 (nat m) @ ''-'' @ pad 2 (nat d))"

definition newDate :: "int \<Rightarrow> int \<Rightarrow> int \<Rightarrow> int" where
  "newDate y m d = (days_from_civil (y + m div 12) (m mod 12 + 1) 1 + (d - 1)) * MS_PER_DAY"



section \<open>Ledger entries\<close>

text \<open>
  The \<^verbatim>\<open>data\<close> field of a transaction, as the code distinguishes it: a value with a
  \<^verbatim>\<open>toDate\<close> method (a Firestore Timestamp), a \<^verbatim>\<open>Date\<close>, a string, or anything else.
  A \<^verbatim>\<open>Date\<close> and the \<^verbatim>\<open>Date\<close> parsed from a string carry their time value, \<open>None\<close> for
  an Invalid Date.
\<close>

datatype date_field =
    Timestamp int
  | JsDate "int option"
  | DateString "int option"
  | OtherDate

text \<open>
  A ledger entry as it arrives, validated by the ledger writer: \<^verbatim>\<open>tipo\<close>, \<^verbatim>\<open>material\<close>,
  \<^verbatim>\<open>quantidade\<close> and \<^verbatim>\<open>valorTotal\<close> are present; \<^verbatim>\<open>formaPagamento\<close> may be missing.
\<close>

record txn =
  tipo :: string
  material :: string
  quantidade :: int
  valorTotal :: int
  formaPagamento :: "string option"
  data :: date_field

section \<open>The mutation handler \<^verbatim>\<open>updateInventoryAndStatsOnChange\<close> (lines 176--380)\<close>

record event =
  before :: "txn option"
  after :: "txn option"

text \<open>
  What one invocation reads from outside: the clock (\<^verbatim>\<open>new Date()\<close>), the server time
  Firestore substitutes for \<^verbatim>\<open>serverTimestamp()\<close>, and whether the store commits the
  transaction (it fails on contention or unavailability).
\<close>

record env =
  now :: int
  serverTime :: int
  commit_ok :: bool

record hstate =
  inventory :: "doc option"
  live_summary :: "doc option"
  daily_reports :: "string \<rightharpoonup> doc"
  memo :: "doc memoryCache"

definition inv_key :: "string \<Rightarrow> string" where
  "inv_key mat = mat @ ''.quantidade''"

text \<open>Lines 207--237: the reversal of the \<^verbatim>\<open>before\<close> snapshot.\<close>

definition revert_inv :: "txn \<Rightarrow> update \<Rightarrow> update" where
  "revert_inv t invUpdate =
     (let invIncrement = (if tipo t = ''compra'' then - quantidade t else quantidade t)
      in invUpdate(inv_key (material t) \<mapsto> Increment invIncrement))"

definition revert_stats :: "txn \<Rightarrow> update \<Rightarrow> update" where
  "revert_stats t statsUpdate =
     (let s1 = statsUpdate(''transacoesHoje'' \<mapsto> Increment (- 1),
                           ''totalTransacoesMes'' \<mapsto> Increment (- 1))
      in if tipo t = ''venda'' then
           s1(''totalVendasMes'' \<mapsto> Increment (- valorTotal t),
              ''vendasHoje'' \<mapsto> Increment (- valorTotal t),
              ''vendasCountMes'' \<mapsto> Increment (- 1))
         else if tipo t = ''compra'' then
           s1(''totalComprasMes'' \<mapsto> Increment (- valorTotal t),
              ''comprasHoje'' \<mapsto> Increment (- valorTotal t),
              ''comprasCountMes'' \<mapsto> Increment (- 1))
         else if tipo t = ''despesa'' then
           s1(''totalDespesasMes'' \<mapsto> Increment (- valorTotal t),
              ''despesasCountMes'' \<mapsto> Increment (- 1))
         else s1)"

text \<open>Lines 240--269: the application of the \<^verbatim>\<open>after\<close> snapshot.\<close>

definition apply_inv :: "txn \<Rightarrow> update \<Rightarrow> update" where
  "apply_inv t invUpdate =
     (let invIncrement = (if tipo t = ''compra'' then quantidade t else - quantidade t)
      in invUpdate(inv_key (material t) \<mapsto> Increment invIncrement))"

definition apply_stats :: "txn \<Rightarrow> update \<Rightarrow> update" where
  "apply_stats t statsUpdate =
     (let s1 = statsUpdate(''transacoesHoje'' \<mapsto> Increment 1,
                           ''totalTransacoesMes'' \<mapsto> Increment 1)
      in if tipo t = ''venda'' then
           s1(''totalVendasMes'' \<mapsto> Increment (valorTotal t),
              ''vendasHoje'' \<mapsto> Increment (valorTotal t),
              ''vendasCountMes'' \<mapsto> Increment 1)
         else if tipo t = ''compra'' then
           s1(''totalComprasMes'' \<mapsto> Increment (valorTotal t),
              ''comprasHoje'' \<mapsto> Increment (valorTotal t),
              ''comprasCountMes'' \<mapsto> Increment 1)
         else if tipo t = ''despesa'' then
           s1(''totalDespesasMes'' \<mapsto> Increment (valorTotal t),
              ''despesasCountMes'' \<mapsto> Increment 1)
         else s1)"

text \<open>
  Lines 196--273, the callback of \<^verbatim>\<open>db.runTransaction\<close>: it builds \<^verbatim>\<open>invUpdate\<close> and
  \<^verbatim>\<open>statsUpdate\<close> and stages one merge-write for each of the two documents.
\<close>

definition invUpdate_of :: "event \<Rightarrow> update" where
  "invUpdate_of ev =
     (let u0 = Map.empty;
          u1 = (case before ev of None \<Rightarrow> u0 | Some b \<Rightarrow> revert_inv b u0)
      in (case after ev of None \<Rightarrow> u1 | Some a \<Rightarrow> apply_inv a u1))"

definition statsUpdate_of :: "env \<Rightarrow> event \<Rightarrow> update" where
  "statsUpdate_of e ev =
     (let today = toISODate (now e);
          s0 = [''updatedAt'' \<mapsto> ServerTimestamp,
                ''lastTransactionDate'' \<mapsto> Put (Str today)];
          s1 = (case before ev of None \<Rightarrow> s0 | Some b \<Rightarrow> revert_stats b s0)
      in (case after ev of None \<Rightarrow> s1 | Some a \<Rightarrow> apply_stats a s1))"

datatype docref = InventoryRef | StatsRef

definition transaction_body :: "env \<Rightarrow> event \<Rightarrow> (docref \<times> update) list" where
  "transaction_body e ev = [(InventoryRef, invUpdate_of ev), (StatsRef, statsUpdate_of e ev)]"

definition stage :: "int \<Rightarrow> hstate \<Rightarrow> docref \<times> update \<Rightarrow> hstate" where
  "stage st s w =
     (case w of
        (InventoryRef, u) \<Rightarrow> s\<lparr>inventory := Some (set_merge st (inventory s) u)\<rparr>
      | (StatsRef, u) \<Rightarrow> s\<lparr>live_summary := Some (set_merge st (live_summary s) u)\<rparr>)"

datatype error = ReferenceError string | TransactionFailed | RangeError | InvalidArgument

text \<open>
  \<^verbatim>\<open>db.runTransaction\<close>: the writes staged by the callback are committed together, or the
  commit fails, nothing is written and the promise rejects.
\<close>

definition runTransaction :: "env \<Rightarrow> (docref \<times> update) list \<Rightarrow> hstate \<Rightarrow> error + hstate" where
  "runTransaction e writes s =
     (if commit_ok e then Inr (foldl (stage (serverTime e)) s writes)
      else Inl TransactionFailed)"

text \<open>
  \<^verbatim>\<open>x || dflt\<close> on an optional string: a missing value and the empty string are falsy.
\<close>

definition or_default :: "string option \<Rightarrow> string \<Rightarrow> string" where
  "or_default v dflt = (case v of None \<Rightarrow> dflt | Some s \<Rightarrow> if s = [] then dflt else s)"

text \<open>\<^verbatim>\<open>toLowerCase\<close>, on the ASCII letters.\<close>

definition lower_char :: "char \<Rightarrow> char" where
  "lower_char c =
     (if CHR ''A'' \<le> c \<and> c \<le> CHR ''Z'' then char_of (of_char c + (32::nat)) else c)"

definition toLowerCase :: "string \<Rightarrow> string" where
  "toLowerCase s = map lower_char s"

text \<open>Lines 292--329 and 331--371: the two halves of \<^verbatim>\<open>dailyUpdate\<close>.\<close>

definition daily_revert :: "txn \<Rightarrow> update \<Rightarrow> update" where
  "daily_revert t dailyUpdate =
     (let fp = toLowerCase (or_default (formaPagamento t) ''dinheiro'');
          mat = material t;
          d1 = dailyUpdate(''totalTransactions'' \<mapsto> Increment (- 1));
          d2 = (if tipo t = ''venda'' then
                  (let v = d1(''totalSales'' \<mapsto> Increment (- valorTotal t),
                              ''salesCount'' \<mapsto> Increment (- 1))
                   in if mat \<noteq> [] then
                        v(''materialStats.'' @ mat @ ''.vendas'' \<mapsto> Increment (- valorTotal t),
                          ''materialStats.'' @ mat @ ''.quantidade'' \<mapsto> Increment (quantidade t))
                      else v)
                else if tipo t = ''compra'' then
                  (let v = d1(''totalPurchases'' \<mapsto> Increment (- valorTotal t),
                              ''purchasesCount'' \<mapsto> Increment (- 1))
                   in if mat \<noteq> [] then
                        v(''materialStats.'' @ mat @ ''.compras'' \<mapsto> Increment (- valorTotal t),
                          ''materialStats.'' @ mat @ ''.quantidade'' \<mapsto> Increment (- quantidade t))
                      else v)
                else if tipo t = ''despesa'' then
                  d1(''totalExpenses'' \<mapsto> Increment (- valorTotal t),
                     ''expensesCount'' \<mapsto> Increment (- 1))
                else d1)
      in d2(''paymentStats.'' @ fp @ ''.total'' \<mapsto> Increment (- valorTotal t),
            ''paymentStats.'' @ fp @ ''.count'' \<mapsto> Increment (- 1)))"

definition daily_apply :: "txn \<Rightarrow> update \<Rightarrow> update" where
  "daily_apply t dailyUpdate =
     (let fp = toLowerCase (or_default (formaPagamento t) ''dinheiro'');
          mat = material t;
          d1 = dailyUpdate(''totalTransactions'' \<mapsto> Increment 1);
          d2 = (if tipo t = ''venda'' then
                  (let v = d1(''totalSales'' \<mapsto> Increment (valorTotal t),
                              ''salesCount'' \<mapsto> Increment 1)
                   in if mat \<noteq> [] then
                        v(''materialStats.'' @ mat @ ''.vendas'' \<mapsto> Increment (valorTotal t),
                          ''materialStats.'' @ mat @ ''.quantidade'' \<mapsto> Increment (- quantidade t),
                          ''materialStats.'' @ mat @ ''.transacoes'' \<mapsto> Increment 1)
                      else v)
                else if tipo t = ''compra'' then
                  (let v = d1(''totalPurchases'' \<mapsto> Increment (valorTotal t),
                              ''purchasesCount'' \<mapsto> Increment 1)
                   in if mat \<noteq> [] then
                        v(''materialStats.'' @ mat @ ''.compras'' \<mapsto> Increment (valorTotal t),
                          ''materialStats.'' @ mat @ ''.quantidade'' \<mapsto> Increment (quantidade t),
                          ''materialStats.'' @ mat @ ''.transacoes'' \<mapsto> Increment 1)
                      else v)
                else if tipo t = ''despesa'' then
                  d1(''totalExpenses'' \<mapsto> Increment (valorTotal t),
                     ''expensesCount'' \<mapsto> Increment 1)
                else d1)
      in d2(''paymentStats.'' @ fp @ ''.total'' \<mapsto> Increment (valorTotal t),
            ''paymentStats.'' @ fp @ ''.count'' \<mapsto> Increment 1))"

text \<open>
  Lines 281--376, the \<^verbatim>\<open>try\<close> block that updates the daily report. It reads the
  identifiers \<^verbatim>\<open>today\<close> (line 282) and \<^verbatim>\<open>transaction\<close> (line 373). Both are declared
  inside the callback of \<^verbatim>\<open>db.runTransaction\<close> (lines 196 and 198) and nowhere else in the
  file, so the block is modelled over the lexical scope it runs in: reading an unbound
  identifier throws a \<^verbatim>\<open>ReferenceError\<close>. Where \<^verbatim>\<open>today\<close> is bound it is the value of
  line 198, the date of the clock. The block yields the key of the daily report and the
  merge-write addressed to it.
\<close>

record scope =
  has_today :: bool
  has_transaction :: bool

definition dailyBlock :: "scope \<Rightarrow> env \<Rightarrow> event \<Rightarrow> error + (string \<times> update)" where
  "dailyBlock sc e ev =
     (if \<not> has_today sc then Inl (ReferenceError ''today'')
      else
        let today = toISODate (now e);
            d0 = [''date'' \<mapsto> Put (Time ((now e div MS_PER_DAY) * MS_PER_DAY + 43200000)),
                  ''dateString'' \<mapsto> Put (Str today),
                  ''updatedAt'' \<mapsto> ServerTimestamp];
            d1 = (case before ev of None \<Rightarrow> d0 | Some b \<Rightarrow> daily_revert b d0);
            d2 = (case after ev of None \<Rightarrow> d1 | Some a \<Rightarrow> daily_apply a d1)
        in if \<not> has_transaction sc then Inl (ReferenceError ''transaction'')
           else Inr (today, d2))"

text \<open>The scope of the handler's own body (lines 183--379), where the block stands.\<close>

definition handler_scope :: scope where
  "handler_scope = \<lparr>has_today = False, has_transaction = False\<rparr>"

text \<open>
  The handler. A rejected transaction rejects the handler before the cache is touched;
  an error of the daily block is caught and logged (line 375), and the handler succeeds.
\<close>

datatype outcome = ReturnedNull | Rejected error | Succeeded "error option"

definition updateInventoryAndStatsOnChange :: "env \<Rightarrow> event \<Rightarrow> hstate \<Rightarrow> hstate \<times> outcome" where
  "updateInventoryAndStatsOnChange e ev s =
     (if before ev = None \<and> after ev = None then (s, ReturnedNull)
      else
        case runTransaction e (transaction_body e ev) s of
          Inl err \<Rightarrow> (s, Rejected err)
        | Inr s1 \<Rightarrow>
            let s2 = s1\<lparr>memo := invalidateCache ''inventory''
                                  (invalidateCache ''stats''
                                    (invalidateCache ''reports_'' (memo s1)))\<rparr>
            in (case dailyBlock handler_scope e ev of
                  Inl err \<Rightarrow> (s2, Succeeded (Some err))
                | Inr (k, u) \<Rightarrow>
                    (s2\<lparr>daily_reports :=
                          (daily_reports s2)(k \<mapsto> set_merge (serverTime e) (daily_reports s2 k) u)\<rparr>,
                     Succeeded None)))"

text \<open>\<^verbatim>\<open>getLiveSummary\<close> (lines 1040--1063), called at time \<open>t\<close>.\<close>

definition live_default :: doc where
  "live_default =
     [''totalVendasMes'' \<mapsto> Num 0, ''totalComprasMes'' \<mapsto> Num 0,
      ''totalDespesasMes'' \<mapsto> Num 0, ''vendasHoje'' \<mapsto> Num 0,
      ''comprasHoje'' \<mapsto> Num 0, ''transacoesHoje'' \<mapsto> Num 0]"

definition getLiveSummary :: "int \<Rightarrow> hstate \<Rightarrow> doc \<times> hstate" where
  "getLiveSummary t s =
     (let fetched = (case live_summary s of None \<Rightarrow> live_default | Some d \<Rightarrow> d)
      in case getCachedData (memo s) t ''live_summary'' fetched of
           (r, c) \<Rightarrow> (r, s\<lparr>memo := c\<rparr>))"

section \<open>Daily aggregates built from raw entries\<close>

text \<open>
  The record written to \<^verbatim>\<open>daily_reports\<close> by the scheduled rollup, the backfill and the
  month report. \<^verbatim>\<open>materialStats\<close> and \<^verbatim>\<open>paymentStats\<close> are JavaScript objects used as
  dictionaries: association lists in insertion order.
\<close>

record material_stat =
  ms_vendas :: int
  ms_compras :: int
  ms_quantidade :: int
  ms_lucro :: int
  ms_transacoes :: int

record payment_stat =
  ps_count :: int
  ps_total :: int

record daily =
  date :: int
  dateString :: string
  totalSales :: int
  totalPurchases :: int
  totalExpenses :: int
  totalProfit :: int
  totalTransactions :: int
  salesCount :: int
  purchasesCount :: int
  expensesCount :: int
  materialStats :: "(string \<times> material_stat) list"
  paymentStats :: "(string \<times> payment_stat) list"
  generatedAt :: "int option"
  generatedBy :: "string option"

definition empty_day :: "int \<Rightarrow> string \<Rightarrow> daily" where
  "empty_day d ds =
     \<lparr>date = d, dateString = ds, totalSales = 0, totalPurchases = 0, totalExpenses = 0,
      totalProfit = 0, totalTransactions = 0, salesCount = 0, purchasesCount = 0,
      expensesCount = 0, materialStats = [], paymentStats = [],
      generatedAt = None, generatedBy = None\<rparr>"

text \<open>
  The body shared by the three scans (lines 451--495, 1207--1257 and 1483--1528): one
  entry added to the accumulator of its day. On the validated entry \<^verbatim>\<open>t.valorTotal || 0\<close>
  and \<^verbatim>\<open>t.quantidade || 0\<close> are the numbers themselves, and \<^verbatim>\<open>t.material || "outros"\<close>
  replaces the empty name.
\<close>

definition accumulate :: "txn \<Rightarrow> daily \<Rightarrow> daily" where
  "accumulate t day =
     (let valor = valorTotal t;
          mat = (if material t = [] then ''outros'' else material t);
          fp = toLowerCase (or_default (formaPagamento t) ''dinheiro'');
          qty = quantidade t;
          day1 = day\<lparr>totalTransactions := totalTransactions day + 1\<rparr>;
          day2 = (if tipo t = ''venda'' then
                    day1\<lparr>totalSales := totalSales day1 + valor, salesCount := salesCount day1 + 1\<rparr>
                  else if tipo t = ''compra'' then
                    day1\<lparr>totalPurchases := totalPurchases day1 + valor,
                         purchasesCount := purchasesCount day1 + 1\<rparr>
                  else if tipo t = ''despesa'' then
                    day1\<lparr>totalExpenses := totalExpenses day1 + valor,
                         expensesCount := expensesCount day1 + 1\<rparr>
                  else day1);
          m0 = (case map_of (materialStats day2) mat of
                  None \<Rightarrow> \<lparr>ms_vendas = 0, ms_compras = 0, ms_quantidade = 0,
                            ms_lucro = 0, ms_transacoes = 0\<rparr>
                | Some m \<Rightarrow> m);
          m1 = (if tipo t = ''venda'' then
                  m0\<lparr>ms_vendas := ms_vendas m0 + valor, ms_quantidade := ms_quantidade m0 - qty\<rparr>
                else if tipo t = ''compra'' then
                  m0\<lparr>ms_compras := ms_compras m0 + valor, ms_quantidade := ms_quantidade m0 + qty\<rparr>
                else m0);
          m2 = m1\<lparr>ms_transacoes := ms_transacoes m1 + 1\<rparr>;
          m3 = m2\<lparr>ms_lucro := ms_vendas m2 - ms_compras m2\<rparr>;
          p0 = (case map_of (paymentStats day2) fp of
                  None \<Rightarrow> \<lparr>ps_count = 0, ps_total = 0\<rparr>
                | Some p \<Rightarrow> p);
          p1 = p0\<lparr>ps_count := ps_count p0 + 1, ps_total := ps_total p0 + valor\<rparr>
      in day2\<lparr>materialStats := AList.update mat m3 (materialStats day2),
              paymentStats := AList.update fp p1 (paymentStats day2)\<rparr>)"

section \<open>The stored collections and the range query\<close>

text \<open>
  The state of the batch jobs: the \<^verbatim>\<open>transactions\<close> collection in document order, the
  \<^verbatim>\<open>daily_reports\<close> collection as pairs of document id and record, and the
  \<^verbatim>\<open>reports/live_summary\<close> document. The process cache, which these jobs only invalidate,
  is left out.
\<close>

record jstate =
  ledger :: "txn list"
  reports :: "(string \<times> daily) list"
  summary :: "doc option"

text \<open>
  \<^verbatim>\<open>where("data", ">=", start).where("data", "<=", end).orderBy("data")\<close> with \<^verbatim>\<open>Date\<close>
  bounds: Firestore compares a field with a bound of its own type only, so the query
  answers with the entries whose \<^verbatim>\<open>data\<close> is a Timestamp in the range, in ascending order
  (ties in document order).
\<close>

definition in_range :: "int \<Rightarrow> int \<Rightarrow> txn \<Rightarrow> bool" where
  "in_range start end t =
     (case data t of Timestamp ms \<Rightarrow> start \<le> ms \<and> ms \<le> end | _ \<Rightarrow> False)"

definition date_ms :: "txn \<Rightarrow> int" where
  "date_ms t = (case data t of Timestamp ms \<Rightarrow> ms | _ \<Rightarrow> 0)"

definition range_query :: "txn list \<Rightarrow> int \<Rightarrow> int \<Rightarrow> txn list" where
  "range_query coll start end = sort_key date_ms (filter (in_range start end) coll)"

definition BATCH_SIZE :: nat where
  "BATCH_SIZE = 500"

section \<open>The scheduled rollup \<^verbatim>\<open>generateHistoricalDailyReport\<close> (lines 382--508)\<close>




section \<open>The collect phase of \<^verbatim>\<open>backfillHistory\<close> and \<^verbatim>\<open>generateMonthReport\<close>\<close>

text \<open>
  \<^verbatim>\<open>dailyData\<close>, the accumulators by date in insertion order, and the counter
  \<^verbatim>\<open>totalProcessed\<close>.
\<close>

record collected =
  dailyData :: "(string \<times> daily) list"
  totalProcessed :: nat

definition collect_at :: "int \<Rightarrow> txn \<Rightarrow> collected \<Rightarrow> collected" where
  "collect_at ms t c =
     (let ds = toISODate ms;
          day = (case map_of (dailyData c) ds of
                   None \<Rightarrow> empty_day ((ms div MS_PER_DAY) * MS_PER_DAY) ds
                 | Some d \<Rightarrow> d)
      in \<lparr>dailyData = AList.update ds (accumulate t day) (dailyData c),
          totalProcessed = totalProcessed c + 1\<rparr>)"

text \<open>
  The callback of \<^verbatim>\<open>snapshot.docs.forEach\<close> (lines 1169--1258 and, word for word,
  1447--1529). \<^verbatim>\<open>toISOString\<close> throws a \<^verbatim>\<open>RangeError\<close> on an Invalid Date.
\<close>

definition collectDoc :: "txn \<Rightarrow> collected \<Rightarrow> error + collected" where
  "collectDoc t c =
     (case data t of
        Timestamp ms \<Rightarrow> Inr (collect_at ms t c)
      | JsDate d \<Rightarrow> (case d of None \<Rightarrow> Inl RangeError | Some ms \<Rightarrow> Inr (collect_at ms t c))
      | DateString d \<Rightarrow> (case d of None \<Rightarrow> Inl RangeError | Some ms \<Rightarrow> Inr (collect_at ms t c))
      | OtherDate \<Rightarrow> Inr c)"

fun collectDocs :: "txn list \<Rightarrow> collected \<Rightarrow> error + collected" where
  "collectDocs [] c = Inr c"
| "collectDocs (t # ts) c =
     (case collectDoc t c of Inl err \<Rightarrow> Inl err | Inr c1 \<Rightarrow> collectDocs ts c1)"

text \<open>The \<^verbatim>\<open>while (hasMore)\<close> loops of lines 1148--1264 and 1426--1531.\<close>

function collect_loop :: "txn list \<Rightarrow> collected \<Rightarrow> error + collected" where
  "collect_loop rest c =
     (let docs = take BATCH_SIZE rest;
          hasMore = (\<not> (docs = [] \<or> length docs < BATCH_SIZE))
      in case (if docs \<noteq> [] then collectDocs docs c else Inr c) of
           Inl err \<Rightarrow> Inl err
         | Inr c1 \<Rightarrow> if hasMore then collect_loop (drop BATCH_SIZE rest) c1 else Inr c1)"
  by pat_completeness auto
termination
  by (relation "measure (\<lambda>(rest, c). length rest)") (auto simp: BATCH_SIZE_def)

declare collect_loop.simps [simp del]

definition collect_start :: collected where
  "collect_start = \<lparr>dailyData = [], totalProcessed = 0\<rparr>"

section \<open>\<^verbatim>\<open>backfillHistory\<close> (lines 1111--1398)\<close>






definition finalize :: "env \<Rightarrow> string \<Rightarrow> daily \<Rightarrow> daily" where
  "finalize e who day =
     day\<lparr>totalProfit := totalSales day - totalPurchases day - totalExpenses day,
         generatedAt := Some (serverTime e),
         generatedBy := Some who\<rparr>"

definition commit_batch :: "(string \<times> daily) list \<Rightarrow> (string \<times> daily) list \<Rightarrow> (string \<times> daily) list" where
  "commit_batch batch docs = foldl (\<lambda>ds w. AList.update (fst w) (snd w) ds) docs batch"













section \<open>\<^verbatim>\<open>generateMonthReport\<close> (lines 1400--1568)\<close>

record month_request =
  year :: "int option"
  month :: "int option"
  m_forceOverwrite :: bool

record month_saving =
  m_batch :: "(string \<times> daily) list"
  m_daysCreated :: nat
  m_skipped :: nat

definition month_save_step :: "env \<Rightarrow> bool \<Rightarrow> (string \<times> daily) list \<Rightarrow> month_saving \<Rightarrow> string \<times> daily \<Rightarrow> month_saving" where
  "month_save_step e force docs st kd =
     (let day = finalize e ''generateMonthReport'' (snd kd)
      in if \<not> force \<and> map_of docs (fst kd) \<noteq> None then st\<lparr>m_skipped := m_skipped st + 1\<rparr>
         else st\<lparr>m_batch := m_batch st @ [(fst kd, day)], m_daysCreated := m_daysCreated st + 1\<rparr>)"

record month_result =
  transactionsProcessed :: nat
  m_created :: nat
  m_daysSkipped :: nat

definition month_scan :: "int \<Rightarrow> int \<Rightarrow> jstate \<Rightarrow> error + collected" where
  "month_scan y m s =
     collect_loop (range_query (ledger s) (newDate y m 1)
                     (newDate y (m + 1) 0 + MS_PER_DAY - 1)) collect_start"

definition generateMonthReport :: "env \<Rightarrow> month_request \<Rightarrow> jstate \<Rightarrow> error + (jstate \<times> month_result)" where
  "generateMonthReport e r s =
     (case year r of
        None \<Rightarrow> Inl InvalidArgument
      | Some y \<Rightarrow>
          if y = 0 then Inl InvalidArgument
          else
            (case month r of
               None \<Rightarrow> Inl InvalidArgument
             | Some m \<Rightarrow>
                 (case month_scan y m s of
                    Inl err \<Rightarrow> Inl err
                  | Inr c \<Rightarrow>
                      let st = foldl (month_save_step e (m_forceOverwrite r) (reports s))
                                 \<lparr>m_batch = [], m_daysCreated = 0, m_skipped = 0\<rparr> (dailyData c)
                      in Inr (s\<lparr>reports := commit_batch (m_batch st) (reports s)\<rparr>,
                              \<lparr>transactionsProcessed = totalProcessed c,
                               m_created = m_daysCreated st,
                               m_daysSkipped = m_skipped st\<rparr>))))"

section \<open>\<^verbatim>\<open>checkLowStock\<close> (lines 898--992)\<close>











text \<open>\<^verbatim>\<open>existingNotification.docs[0].ref.update(...)\<close>: the first match is rewritten in place.\<close>

fun update_first :: "('a \<Rightarrow> bool) \<Rightarrow> ('a \<Rightarrow> 'a) \<Rightarrow> 'a list \<Rightarrow> 'a list" where
  "update_first P f [] = []"
| "update_first P f (x # xs) = (if P x then f x # xs else x # update_first P f xs)"




section \<open>Example data\<close>

text \<open>
  An invocation on 2024-06-15 (UTC) that commits, a state holding 50 units of
  \<^verbatim>\<open>ferro\<close>, a live summary cached ten seconds earlier, and a daily report for
  2024-01-01; entries of \<^verbatim>\<open>ferro\<close> dated 2024-01-01.
\<close>

definition ex_env :: env where
  "ex_env = \<lparr>now = 1718409600000, serverTime = 1718409600123, commit_ok = True\<rparr>"

definition ex_cached :: doc where
  "ex_cached = [''transacoesHoje'' \<mapsto> Num 4, ''totalComprasMes'' \<mapsto> Num 900]"

definition ex_state :: hstate where
  "ex_state =
     \<lparr>inventory = Some [''ferro.quantidade'' \<mapsto> Num 50],
      live_summary = Some ex_cached,
      daily_reports = [''2024-01-01'' \<mapsto> [''totalSales'' \<mapsto> Num 0]],
      memo = [''live_summary'' \<mapsto> (ex_cached, 1718409590000)]\<rparr>"

definition ex_entry :: "string \<Rightarrow> int \<Rightarrow> int \<Rightarrow> txn" where
  "ex_entry k q v =
     \<lparr>tipo = k, material = ''ferro'', quantidade = q, valorTotal = v,
      formaPagamento = Some ''PIX'', data = Timestamp 1704067200000\<rparr>"



definition ex_ledger :: "txn list" where
  "ex_ledger =
     [\<lparr>tipo = ''compra'', material = ''ferro'', quantidade = 50, valorTotal = 100,
       formaPagamento = Some ''PIX'', data = Timestamp 1718323200000\<rparr>,
      \<lparr>tipo = ''venda'', material = ''ferro'', quantidade = 20, valorTotal = 80,
       formaPagamento = None, data = Timestamp 1718326800000\<rparr>,
      \<lparr>tipo = ''despesa'', material = [], quantidade = 0, valorTotal = 30,
       formaPagamento = Some ''Dinheiro'', data = Timestamp 1718409600000\<rparr>,
      \<lparr>tipo = ''venda'', material = ''cobre'', quantidade = 2, valorTotal = 60,
       formaPagamento = Some ''pix'', data = OtherDate\<rparr>]"







section \<open>Notions used to state the properties\<close>






section \<open>Properties of the mutation handler\<close>

lemmas handler_defs = updateInventoryAndStatsOnChange_def runTransaction_def transaction_body_def
  stage_def invUpdate_of_def statsUpdate_of_def revert_inv_def apply_inv_def revert_stats_def
  apply_stats_def set_merge_def field_def apply_transform_def inv_key_def num_of_def
  dailyBlock_def handler_scope_def invalidateCache_def startsWith_def



text \<open>
  C1. The claim gives an expense an inventory delta of 0. Lines 209 and 242 test only for
  \<^verbatim>\<open>"compra"\<close>, so every other kind is treated as a sale: creating an expense of 5 units
  of \<^verbatim>\<open>ferro\<close> takes the stock from 50 to 45.
\<close>

theorem C1_expense_lowers_inventory:
  "num_of (field (inventory (fst (updateInventoryAndStatsOnChange ex_env
       \<lparr>before = None, after = Some (ex_entry ''despesa'' 5 100)\<rparr> ex_state)))
     ''ferro.quantidade'') = 45"
  by (simp add: handler_defs ex_env_def ex_state_def ex_entry_def Let_def)

text \<open>
  C2. The claim expects the update of a purchase from 10 to 3 units to change the stock by
  \<open>-7\<close>. Line 244 assigns the key that line 211 has just assigned, so the reversal is
  lost and the stock goes from 50 to 53.
\<close>

theorem C2_update_adds_new_quantity:
  "num_of (field (inventory (fst (updateInventoryAndStatsOnChange ex_env
       \<lparr>before = Some (ex_entry ''compra'' 10 100), after = Some (ex_entry ''compra'' 3 30)\<rparr>
       ex_state))) ''ferro.quantidade'') = 53"
  by (simp add: handler_defs ex_env_def ex_state_def ex_entry_def Let_def)




text \<open>
  C4. The claim expects no stale live summary after a mutation. The handler invalidates
  the prefixes \<^verbatim>\<open>reports_\<close>, \<^verbatim>\<open>stats\<close> and \<^verbatim>\<open>inventory\<close>; the live summary is cached under
  \<^verbatim>\<open>live_summary\<close>. After a purchase is created the stored counter of today's transactions
  is 5, and a call one second later still answers the cached document with 4.
\<close>

theorem C4_live_summary_stays_cached:
  "(let s1 = fst (updateInventoryAndStatsOnChange ex_env
                \<lparr>before = None, after = Some (ex_entry ''compra'' 10 100)\<rparr> ex_state);
        r = fst (getLiveSummary 1718409601000 s1)
    in field (live_summary s1) ''transacoesHoje'' = Some (Num 5)
       \<and> r ''transacoesHoje'' = Some (Num 4)
       \<and> r = ex_cached)"
  by (simp add: handler_defs ex_env_def ex_state_def ex_entry_def Let_def getLiveSummary_def
      getCachedData_def CACHE_TTL_def ex_cached_def)



section \<open>Properties of the paginated scans\<close>


lemma collectDocs_append:
  "collectDocs (xs @ ys) c =
     (case collectDocs xs c of Inl err \<Rightarrow> Inl err | Inr c1 \<Rightarrow> collectDocs ys c1)"
  by (induction xs arbitrary: c) (auto split: sum.splits)

lemma collect_loop_collectDocs: "collect_loop rest c = collectDocs rest c"
proof (induction rest c rule: collect_loop.induct)
  case (1 rest c)
  show ?case
  proof (cases "BATCH_SIZE \<le> length rest")
    case True
    then have more: "\<not> (take BATCH_SIZE rest = [] \<or> length (take BATCH_SIZE rest) < BATCH_SIZE)"
      by (auto simp: BATCH_SIZE_def)
    have ne: "take BATCH_SIZE rest \<noteq> []"
      using more by blast
    have split: "collectDocs rest c =
        (case collectDocs (take BATCH_SIZE rest) c of
           Inl err \<Rightarrow> Inl err | Inr c1 \<Rightarrow> collectDocs (drop BATCH_SIZE rest) c1)"
      using collectDocs_append [of "take BATCH_SIZE rest" "drop BATCH_SIZE rest" c] by simp
    show ?thesis
    proof (cases "collectDocs (take BATCH_SIZE rest) c")
      case (Inl err)
      then show ?thesis
        using ne more by (subst collect_loop.simps) (simp add: Let_def split)
    next
      case (Inr c1)
      have ih: "collect_loop (drop BATCH_SIZE rest) c1 = collectDocs (drop BATCH_SIZE rest) c1"
        using "1.IH" [OF refl refl _ more, of c1] Inr ne by simp
      show ?thesis
        using ne more Inr ih by (subst collect_loop.simps) (simp add: Let_def split)
    qed
  next
    case False
    then have all: "take BATCH_SIZE rest = rest"
      by simp
    show ?thesis
      using False by (subst collect_loop.simps) (cases rest; auto simp: Let_def all split: sum.splits)
  qed
qed

lemma collectDoc_other: "data t = OtherDate \<Longrightarrow> collectDoc t c = Inr c"
  by (simp add: collectDoc_def)

lemma collectDocs_filter:
  "collectDocs (filter (\<lambda>t. data t \<noteq> OtherDate) docs) c = collectDocs docs c"
  by (induction docs arbitrary: c) (auto simp: collectDoc_other split: sum.splits)

text \<open>
  C10. A scanned transaction whose \<^verbatim>\<open>data\<close> is neither a Timestamp, a \<^verbatim>\<open>Date\<close> nor a
  string leaves the accumulators and the counter \<^verbatim>\<open>totalProcessed\<close> as they were, and
  the whole collect phase, which \<^verbatim>\<open>backfillHistory\<close> and \<^verbatim>\<open>generateMonthReport\<close> both
  run, gives on any scanned list what it gives on the list without those transactions.
\<close>

theorem C10_other_dates_skipped:
  "(data t = OtherDate \<longrightarrow> collectDoc t c = Inr c)
   \<and> collect_loop docs c = collect_loop (filter (\<lambda>t. data t \<noteq> OtherDate) docs) c"
  by (simp add: collectDoc_other collect_loop_collectDocs collectDocs_filter)

theorem C10_other_dates_skipped_witness:
  "data (ex_ledger ! 3) = OtherDate
   \<and> collectDoc (ex_ledger ! 3) collect_start = Inr collect_start
   \<and> collect_loop ex_ledger collect_start = collect_loop (take 3 ex_ledger) collect_start"
proof -
  have d: "data (ex_ledger ! 3) = OtherDate"
    by (simp add: ex_ledger_def)
  have f: "filter (\<lambda>t. data t \<noteq> OtherDate) ex_ledger = take 3 ex_ledger"
    by (simp add: ex_ledger_def)
  from C10_other_dates_skipped [where t = "ex_ledger ! 3" and c = collect_start and docs = ex_ledger] d f
  show ?thesis by simp
qed

section \<open>Properties of the scheduled rollup\<close>













section \<open>Properties of the backfill\<close>


lemma commit_batch_append:
  "commit_batch (b @ [w]) docs = AList.update (fst w) (snd w) (commit_batch b docs)"
  by (simp add: commit_batch_def)






















section \<open>Properties of the stock monitor\<close>



lemma length_update_first: "length (update_first P f xs) = length xs"
  by (induction xs) auto








end
